theory Spec2Isabelle
  imports Main "HOL-Library.AList"
begin

section \<open>Project.js: the project directory watcher\<close>

text \<open>
  A shallow embedding of the class \<open>Project\<close> of \<open>src/api/desktop/Project.js\<close>.
  The instance fields become a record, every method becomes a function on that record, a
  rejected promise becomes an \<open>Inl\<close> result, and the calls made to listeners and
  callbacks are appended to a log. What a listener or a callback does in return is part
  of the state the methods run in.
\<close>

subsection \<open>JavaScript values that the code handles\<close>

text \<open>
  The only values a node's \<open>lastModified\<close> field can hold are a \<open>Date\<close> (kept as
  its \<open>getTime()\<close> value) and \<open>undefined\<close>.
\<close>

datatype jsval = Undefined | DateV int

datatype error = AccessError

text \<open>
  A promise, represented by the outcome it settles with. \<open>await\<close> on a promise yields
  that outcome (a rejection is thrown at the \<open>await\<close>); reading a property that a
  Promise object does not have yields \<open>undefined\<close>, and \<open>await\<close> on a value that is
  not a promise yields the value itself.
\<close>

datatype 'a promise = Promise "error + 'a"

fun await_promise :: "'a promise \<Rightarrow> error + 'a" where
  "await_promise (Promise r) = r"

definition promise_lastModificationDate :: "'a promise \<Rightarrow> jsval" where
  "promise_lastModificationDate p = Undefined"

definition await_value :: "jsval \<Rightarrow> jsval" where
  "await_value v = v"

subsection \<open>The collaborators: \<open>OS.File\<close>, \<open>OS.Path\<close> and \<open>./utils\<close>\<close>

text \<open>
  An entry of a directory listing. \<open>winLastWriteDate\<close> is \<open>Some d\<close> when the entry
  object has the key \<open>"winLastWriteDate"\<close>.
\<close>

record entry =
  e_name :: string
  e_path :: string
  e_isDir :: bool
  winLastWriteDate :: "int option"

text \<open>
  The functions imported by the class are parameters of the model: \<open>OS.File.stat\<close>
  (the \<open>lastModificationDate\<close> of the path, or a rejection), \<open>getDirectoryEntries\<close>,
  \<open>getFileExtension\<close>, \<open>OS.Path.fromFileURI\<close> and \<open>OS.Path.toFileURI\<close>.
\<close>

record env =
  stat :: "string \<Rightarrow> error + int"
  getDirectoryEntries :: "string \<Rightarrow> error + entry list"
  getFileExtension :: "string \<Rightarrow> string option"
  fromFileURI :: "string \<Rightarrow> string"
  toFileURI :: "string \<Rightarrow> string"

definition OS_File_stat :: "env \<Rightarrow> string \<Rightarrow> int promise" where
  "OS_File_stat E p = Promise (stat E p)"

subsection \<open>The tree\<close>

text \<open>
  The two object shapes returned by \<open>buildProjectNode\<close>: \<open>{name, ext, uri, isDirectory,
  lastModified}\<close> for a file and \<open>{name, uri, children, files, isDirectory: true,
  lastModified}\<close> for a directory.
\<close>

datatype node =
    FileNode string "string option" string jsval
  | DirNode string string "node list" "node list" jsval

fun isDirectory :: "node \<Rightarrow> bool" where
  "isDirectory (FileNode n x u m) = False"
| "isDirectory (DirNode n u cs fs m) = True"

fun ext :: "node \<Rightarrow> string option" where
  "ext (FileNode n x u m) = x"
| "ext (DirNode n u cs fs m) = None"

fun node_name :: "node \<Rightarrow> string" where
  "node_name (FileNode n x u m) = n"
| "node_name (DirNode n u cs fs m) = n"

fun lastModified :: "node \<Rightarrow> jsval" where
  "lastModified (FileNode n x u m) = m"
| "lastModified (DirNode n u cs fs m) = m"

fun children :: "node \<Rightarrow> node list" where
  "children (FileNode n x u m) = []"
| "children (DirNode n u cs fs m) = cs"

fun files :: "node \<Rightarrow> node list" where
  "files (FileNode n x u m) = []"
| "files (DirNode n u cs fs m) = fs"

subsection \<open>\<open>buildProjectNode\<close>\<close>

text \<open>
  Lines 47 to 53: the timestamp handed to the child's node. In the \<open>else\<close> branch the
  source reads \<open>await OS.File.stat(childEntry.path).lastModificationDate\<close>: the property
  is read from the promise that \<open>stat\<close> returns and the result of that is awaited.
\<close>

definition childLastModified :: "env \<Rightarrow> entry \<Rightarrow> jsval" where
  "childLastModified E childEntry =
     (case winLastWriteDate childEntry of
        Some d \<Rightarrow> DateV d
      | None \<Rightarrow> await_value (promise_lastModificationDate (OS_File_stat E (e_path childEntry))))"

text \<open>Line 65: the test that puts a child node into \<open>children\<close>.\<close>

definition expandable :: "node \<Rightarrow> bool" where
  "expandable childNode =
     (isDirectory childNode \<or> ext childNode = Some ''gltf'' \<or> ext childNode = Some ''glb'')"

text \<open>
  The recursion follows the directory listings, which the model does not assume to be
  well-founded, so it carries fuel: \<open>None\<close> means that the fuel ran out. \<open>buildEntries\<close>
  is the \<open>for\<close> loop of lines 46 to 70 with its two accumulators.
\<close>

fun buildProjectNode ::
    "nat \<Rightarrow> env \<Rightarrow> string \<Rightarrow> string \<Rightarrow> string option \<Rightarrow> bool \<Rightarrow> string \<Rightarrow> jsval
      \<Rightarrow> (error + node) option"
  and buildEntries ::
    "nat \<Rightarrow> env \<Rightarrow> entry list \<Rightarrow> node list \<Rightarrow> node list
      \<Rightarrow> (error + node list \<times> node list) option"
where
  "buildProjectNode 0 E filePath name x isDir uri lm = None"
| "buildProjectNode (Suc k) E filePath name x isDir uri lm =
     (if \<not> isDir then Some (Inr (FileNode name x uri lm))
      else case getDirectoryEntries E filePath of
             Inl e \<Rightarrow> Some (Inl e)
           | Inr directoryEntries \<Rightarrow>
               (case buildEntries k E directoryEntries [] [] of
                  None \<Rightarrow> None
                | Some (Inl e) \<Rightarrow> Some (Inl e)
                | Some (Inr (cs, fs)) \<Rightarrow> Some (Inr (DirNode name uri cs fs lm))))"
| "buildEntries k E [] cs fs = Some (Inr (cs, fs))"
| "buildEntries k E (childEntry # rest) cs fs =
     (case buildProjectNode k E (e_path childEntry) (e_name childEntry)
             (getFileExtension E (e_name childEntry)) (e_isDir childEntry)
             (toFileURI E (e_path childEntry)) (childLastModified E childEntry) of
        None \<Rightarrow> None
      | Some (Inl e) \<Rightarrow> Some (Inl e)
      | Some (Inr childNode) \<Rightarrow>
          buildEntries k E rest
            (if expandable childNode then cs @ [childNode] else cs)
            (fs @ [childNode]))"

subsection \<open>The instance state\<close>

text \<open>
  A function registered on the emitter is either the instance's own arrow function
  \<open>_onWatchedFileChanged\<close> or a function of the caller, known by a number only. The
  callbacks of \<open>watchFile\<close> are numbers as well.
\<close>

datatype listener = OnWatchedFileChanged | External nat

type_synonym callback = nat

text \<open>
  What the class does to the outside: \<open>Notify n t\<close> is the call \<open>n(t)\<close> made by
  \<open>emit\<close> to an external listener (\<open>t = None\<close> for \<open>null\<close>), \<open>FileCallback c s u\<close> is
  the call \<open>c(s, u)\<close> of line 168 or 173.
\<close>

datatype call = Notify nat "node option" | FileCallback callback string string

text \<open>
  What a function of the caller may do while the instance calls it: call a method of the
  instance (\<open>on\<close> and \<open>off\<close> are the methods inherited from \<open>EventEmitter\<close>, which the
  class does not override), or throw.
\<close>

datatype action =
    CallAddListener string nat
  | CallRemoveListener string nat
  | CallOn string nat
  | CallOff string nat
  | CallWatchFile string callback
  | CallUnwatchFile string callback
  | CallClose
  | Throw

text \<open>
  The fields set by the constructor (the icon fields play no part and are left out), the
  listener table of the \<open>EventEmitter\<close> base class as a list of (event, function) pairs in
  registration order, and the timeouts of the runtime that are pending, as (id, delay)
  pairs. A JavaScript \<open>Map\<close> is an association list in insertion order:
  \<open>has\<close>/\<open>get\<close> are \<^const>\<open>map_of\<close>, \<open>set\<close> is \<^const>\<open>AList.update\<close> (in place
  for a key that is present, at the end otherwise), \<open>delete\<close> is \<^const>\<open>AList.delete\<close>.

  The last three fields describe the caller's functions: \<open>listener_does\<close> gives the actions
  an external listener takes when it is notified, \<open>callback_does\<close> the actions a file
  callback takes when it is called with a signal and a uri (no entry: none), and
  \<open>detached\<close> keeps the callback arrays that a notified function took out of
  \<open>_fileWatchHandlers\<close>, since a loop that holds such an array goes on reading it.
\<close>

record project =
  p_uri :: string
  p_path :: string
  p_name :: string
  checkHierarchyTimeout :: "nat option"
  fileHierarchy :: "node option"
  fileWatchHandlerCount :: int
  fileWatchHandlers :: "(string \<times> callback list) list"
  prevWatchedFileModified :: "(string \<times> int) list"
  events :: "(string \<times> listener) list"
  timers :: "(nat \<times> nat) list"
  nextTimer :: nat
  calls :: "call list"
  listener_does :: "(nat \<times> action list) list"
  callback_does :: "((callback \<times> string \<times> string) \<times> action list) list"
  detached :: "(string \<times> callback list) list"

definition Project :: "env \<Rightarrow> string \<Rightarrow> string \<Rightarrow> project" where
  "Project E name uri =
     \<lparr> p_uri = uri, p_path = fromFileURI E uri, p_name = name,
       checkHierarchyTimeout = None, fileHierarchy = None,
       fileWatchHandlerCount = 0, fileWatchHandlers = [], prevWatchedFileModified = [],
       events = [], timers = [], nextTimer = 0, calls = [],
       listener_does = [], callback_does = [], detached = [] \<rparr>"

subsection \<open>The runtime: timeouts and the emitter\<close>

definition setTimeout :: "nat \<Rightarrow> project \<Rightarrow> nat \<times> project" where
  "setTimeout delay st =
     (nextTimer st,
      st\<lparr>timers := timers st @ [(nextTimer st, delay)], nextTimer := Suc (nextTimer st)\<rparr>)"

definition clearTimeout :: "nat option \<Rightarrow> project \<Rightarrow> project" where
  "clearTimeout t st =
     (case t of
        None \<Rightarrow> st
      | Some i \<Rightarrow> st\<lparr>timers := filter (\<lambda>p. fst p \<noteq> i) (timers st)\<rparr>)"

text \<open>
  \<open>EventEmitter\<close> of eventemitter3: \<open>addListener\<close> appends, \<open>removeListener\<close> drops every
  registration of the function for the event, \<open>emit\<close> calls the functions that were
  listeners of the event when it started, in registration order.
\<close>

definition listeners :: "string \<Rightarrow> project \<Rightarrow> listener list" where
  "listeners event st = map snd (filter (\<lambda>p. fst p = event) (events st))"

definition listenerCount :: "string \<Rightarrow> project \<Rightarrow> nat" where
  "listenerCount event st = length (listeners event st)"

definition super_addListener :: "string \<Rightarrow> listener \<Rightarrow> project \<Rightarrow> project" where
  "super_addListener event callback st = st\<lparr>events := events st @ [(event, callback)]\<rparr>"

definition super_removeListener :: "string \<Rightarrow> listener \<Rightarrow> project \<Rightarrow> project" where
  "super_removeListener event callback st =
     st\<lparr>events := filter (\<lambda>p. p \<noteq> (event, callback)) (events st)\<rparr>"

subsection \<open>\<open>getFileHierarchy\<close>\<close>

text \<open>
  The outcome of the promise returned by \<open>getFileHierarchy(force)\<close>: \<open>Inl\<close> when it
  rejects, otherwise the tree it resolves with and the instance after line 84.
\<close>

definition getFileHierarchy ::
    "nat \<Rightarrow> env \<Rightarrow> bool \<Rightarrow> project \<Rightarrow> (error + node \<times> project) option" where
  "getFileHierarchy k E force st =
     (if fileHierarchy st \<noteq> None \<and> \<not> force then Some (Inr (the (fileHierarchy st), st))
      else case await_promise (OS_File_stat E (p_path st)) of
             Inl e \<Rightarrow> Some (Inl e)
           | Inr lastModificationDate \<Rightarrow>
               (case buildProjectNode k E (p_path st) (p_name st) None True (p_uri st)
                       (DateV lastModificationDate) of
                  None \<Rightarrow> None
                | Some (Inl e) \<Rightarrow> Some (Inl e)
                | Some (Inr t) \<Rightarrow> Some (Inr (t, st\<lparr>fileHierarchy := Some t\<rparr>))))"

subsection \<open>\<open>addListener\<close> and \<open>removeListener\<close>\<close>

definition addListener :: "string \<Rightarrow> listener \<Rightarrow> project \<Rightarrow> project" where
  "addListener event callback st =
     (let st1 = super_addListener event callback st in
      if event = ''hierarchychanged'' \<and> checkHierarchyTimeout st1 = None
      then (case setTimeout 1000 st1 of (i, st2) \<Rightarrow> st2\<lparr>checkHierarchyTimeout := Some i\<rparr>)
      else st1)"

definition removeListener :: "string \<Rightarrow> listener \<Rightarrow> project \<Rightarrow> project" where
  "removeListener event callback st =
     (let st1 = super_removeListener event callback st in
      if event = ''hierarchychanged'' \<and> listenerCount event st1 = 0
      then (clearTimeout (checkHierarchyTimeout st1) st1)\<lparr>checkHierarchyTimeout := None\<rparr>
      else st1)"

subsection \<open>\<open>watchFile\<close>, \<open>unwatchFile\<close> and \<open>close\<close>\<close>

text \<open>Lines 128 to 132, the end of \<open>watchFile\<close> on both of its paths.\<close>

definition countWatch :: "project \<Rightarrow> project" where
  "countWatch st1 =
     (let st2 = (if fileWatchHandlerCount st1 = 0
                 then addListener ''hierarchychanged'' OnWatchedFileChanged st1
                 else st1)
      in st2\<lparr>fileWatchHandlerCount := fileWatchHandlerCount st2 + 1\<rparr>)"

text \<open>
  \<open>watchFile\<close> is an asynchronous function. For a uri that has a registration it runs to
  its end at once (lines 118, 119 and 128 to 132). Otherwise it stops at the \<open>await\<close> of
  line 122, and anything may run on the instance before \<open>watchFile_resume\<close>, the rest of
  the call, runs on the instance as it is when the \<open>stat\<close> has settled: the test of
  line 118 is not made again.
\<close>

datatype watch_call = Ended project | AwaitsStat

definition watchFile_begin :: "string \<Rightarrow> callback \<Rightarrow> project \<Rightarrow> watch_call" where
  "watchFile_begin uri callback st =
     (case map_of (fileWatchHandlers st) uri of
        Some callbacks \<Rightarrow>
          Ended (countWatch
                   (st\<lparr>fileWatchHandlers :=
                         AList.update uri (callbacks @ [callback]) (fileWatchHandlers st)\<rparr>))
      | None \<Rightarrow> AwaitsStat)"

definition watchFile_resume :: "env \<Rightarrow> string \<Rightarrow> callback \<Rightarrow> project \<Rightarrow> error + project" where
  "watchFile_resume E uri callback st =
     (case await_promise (OS_File_stat E (fromFileURI E uri)) of
        Inl e \<Rightarrow> Inl e
      | Inr lastModificationDate \<Rightarrow>
          Inr (countWatch
                 (st\<lparr>prevWatchedFileModified :=
                       AList.update uri lastModificationDate (prevWatchedFileModified st),
                     fileWatchHandlers :=
                       AList.update uri [callback] (fileWatchHandlers st)\<rparr>)))"

text \<open>A call of \<open>watchFile\<close> during whose \<open>await\<close> nothing else runs on the instance.\<close>

definition watchFile :: "env \<Rightarrow> string \<Rightarrow> callback \<Rightarrow> project \<Rightarrow> error + project" where
  "watchFile E uri callback st =
     (case watchFile_begin uri callback st of
        Ended st' \<Rightarrow> Inr st'
      | AwaitsStat \<Rightarrow> watchFile_resume E uri callback st)"

text \<open>\<open>Array.prototype.indexOf\<close> (\<open>None\<close> for \<open>-1\<close>) and \<open>splice(index, 1)\<close>.\<close>

fun indexOf :: "'a list \<Rightarrow> 'a \<Rightarrow> nat option" where
  "indexOf [] y = None"
| "indexOf (x # xs) y = (if x = y then Some 0 else map_option Suc (indexOf xs y))"

definition splice1 :: "nat \<Rightarrow> 'a list \<Rightarrow> 'a list" where
  "splice1 index xs = take index xs @ drop (Suc index) xs"

text \<open>Lines 136 to 148 of \<open>unwatchFile\<close>.\<close>

definition unregister :: "string \<Rightarrow> callback \<Rightarrow> project \<Rightarrow> project" where
  "unregister uri callback st =
     (case map_of (fileWatchHandlers st) uri of
        None \<Rightarrow> st
      | Some callbacks \<Rightarrow>
          if length callbacks = 1
          then st\<lparr>fileWatchHandlers := AList.delete uri (fileWatchHandlers st),
                  fileWatchHandlerCount := fileWatchHandlerCount st - 1\<rparr>
          else (case indexOf callbacks callback of
                  None \<Rightarrow> st
                | Some index \<Rightarrow>
                    st\<lparr>fileWatchHandlers :=
                         AList.update uri (splice1 index callbacks) (fileWatchHandlers st),
                       fileWatchHandlerCount := fileWatchHandlerCount st - 1\<rparr>))"

definition unwatchFile :: "string \<Rightarrow> callback \<Rightarrow> project \<Rightarrow> project" where
  "unwatchFile uri callback st =
     (let st1 = unregister uri callback st in
      if fileWatchHandlerCount st1 = 0
      then removeListener ''hierarchychanged'' OnWatchedFileChanged st1
      else st1)"

text \<open>
  \<open>close\<close>: no code of the class assigns \<open>this.watcher\<close>, so the test of line 180 reads
  \<open>undefined\<close> and only line 184 runs.
\<close>

definition close :: "project \<Rightarrow> project" where
  "close st = removeListener ''hierarchychanged'' OnWatchedFileChanged st"

subsection \<open>What the caller's functions do when they are called\<close>

definition reaction_of_listener :: "project \<Rightarrow> nat \<Rightarrow> action list" where
  "reaction_of_listener st n = (case map_of (listener_does st) n of Some as \<Rightarrow> as | None \<Rightarrow> [])"

definition reaction_of_callback :: "project \<Rightarrow> callback \<Rightarrow> string \<Rightarrow> string \<Rightarrow> action list" where
  "reaction_of_callback st c signal uri =
     (case map_of (callback_does st) (c, signal, uri) of Some as \<Rightarrow> as | None \<Rightarrow> [])"

text \<open>
  One call made by a notified function. All the methods but \<open>watchFile\<close> run to their end
  during the call. A \<open>watchFile\<close> of a uri without registration changes nothing before its
  \<open>await\<close>; its rest is a step of its own, after the notification. When \<open>unwatchFile\<close>
  deletes the entry of the uri, the array that was its value is kept in \<open>detached\<close>.
\<close>

fun perform :: "action \<Rightarrow> project \<Rightarrow> project" where
  "perform (CallAddListener event n) st = addListener event (External n) st"
| "perform (CallRemoveListener event n) st = removeListener event (External n) st"
| "perform (CallOn event n) st = super_addListener event (External n) st"
| "perform (CallOff event n) st = super_removeListener event (External n) st"
| "perform (CallWatchFile uri c) st =
     (case watchFile_begin uri c st of Ended st' \<Rightarrow> st' | AwaitsStat \<Rightarrow> st)"
| "perform (CallUnwatchFile uri c) st =
     (let st' = unwatchFile uri c st in
      case map_of (fileWatchHandlers st) uri of
        None \<Rightarrow> st'
      | Some callbacks \<Rightarrow>
          if map_of (fileWatchHandlers st') uri = None
          then st'\<lparr>detached := AList.update uri callbacks (detached st')\<rparr>
          else st')"
| "perform CallClose st = close st"
| "perform Throw st = st"

text \<open>
  The body of a notified function: its calls in order, up to a \<open>throw\<close>. The result says
  whether it threw; what it did before stays done.
\<close>

fun performAll :: "action list \<Rightarrow> project \<Rightarrow> bool \<times> project" where
  "performAll [] st = (False, st)"
| "performAll (Throw # as) st = (True, st)"
| "performAll (a # as) st = performAll as (perform a st)"

subsection \<open>\<open>_onWatchedFileChanged\<close>\<close>

text \<open>
  The array that a loop over the callbacks of \<open>fileUri\<close> reads. The loop holds the array
  object that is the value of the entry: while the uri has an entry, that is the entry's
  value, with the pushes of line 119 and the splices of line 144 made since; after the
  entry was deleted, it is the array as it was then.
\<close>

definition live :: "project \<Rightarrow> string \<Rightarrow> callback list" where
  "live st fileUri =
     (case map_of (fileWatchHandlers st) fileUri of
        Some callbacks \<Rightarrow> callbacks
      | None \<Rightarrow> (case map_of (detached st) fileUri of Some callbacks \<Rightarrow> callbacks | None \<Rightarrow> []))"

text \<open>
  The loops of lines 167 to 169 and 172 to 174, from index \<open>i\<close> on: the array iterator
  reads the length and the element at each round, after what the callbacks before have
  done. A callback may make the array longer at each call, so the loop carries fuel. The
  result says whether a callback threw.
\<close>

fun notifyAll :: "nat \<Rightarrow> string \<Rightarrow> string \<Rightarrow> nat \<Rightarrow> project \<Rightarrow> (bool \<times> project) option" where
  "notifyAll 0 signal fileUri i st = None"
| "notifyAll (Suc k) signal fileUri i st =
     (let callbacks = live st fileUri in
      if i < length callbacks
      then (case performAll (reaction_of_callback st (callbacks ! i) signal fileUri)
                   (st\<lparr>calls := calls st @ [FileCallback (callbacks ! i) signal fileUri]\<rparr>) of
              (True, st') \<Rightarrow> Some (True, st')
            | (False, st') \<Rightarrow> notifyAll k signal fileUri (Suc i) st')
      else Some (False, st))"

text \<open>
  Lines 157 to 175 for the entry of \<open>fileUri\<close>, once its \<open>stat\<close> has settled. The \<open>catch\<close>
  branch is taken when the \<open>stat\<close> is rejected, by the \<open>TypeError\<close> of
  \<open>prevLastModificationDate.getTime()\<close> when the uri has no stored date, and when a
  callback throws in the loop of line 167. The result says whether a callback threw in
  the loop of line 172, which ends the handler.
\<close>

definition watchedFileRound :: "nat \<Rightarrow> env \<Rightarrow> string \<Rightarrow> project \<Rightarrow> (bool \<times> project) option" where
  "watchedFileRound k E fileUri st =
     (case await_promise (OS_File_stat E (fromFileURI E fileUri)) of
        Inl e \<Rightarrow> notifyAll k ''removed'' fileUri 0 st
      | Inr lastModificationDate \<Rightarrow>
          (case map_of (prevWatchedFileModified st) fileUri of
             None \<Rightarrow> notifyAll k ''removed'' fileUri 0 st
           | Some prevLastModificationDate \<Rightarrow>
               if lastModificationDate \<noteq> prevLastModificationDate
               then (case notifyAll k ''changed'' fileUri 0
                            (st\<lparr>prevWatchedFileModified :=
                                  AList.update fileUri lastModificationDate
                                    (prevWatchedFileModified st)\<rparr>) of
                       None \<Rightarrow> None
                     | Some (True, st') \<Rightarrow> notifyAll k ''removed'' fileUri 0 st'
                     | Some (False, st') \<Rightarrow> Some (False, st'))
               else Some (False, st)))"

text \<open>
  A run of the handler is the loop of line 156 over the \<open>Map\<close>. The call itself takes the
  first entry and stops at the \<open>await\<close> of line 160; the run then is the uri of the entry
  it holds and the keys that follow. After each round the iterator goes on to the next key
  that still has an entry. Keys are added by \<open>watchFile_resume\<close> only, so none is added
  during a run in which nothing but the notified functions runs.
\<close>

type_synonym run = "string option \<times> string list"

definition start_run :: "project \<Rightarrow> run" where
  "start_run st =
     (case map fst (fileWatchHandlers st) of
        [] \<Rightarrow> (None, [])
      | fileUri # rest \<Rightarrow> (Some fileUri, rest))"

fun handlerNext :: "nat \<Rightarrow> env \<Rightarrow> string list \<Rightarrow> project \<Rightarrow> project option" where
  "handlerNext k E [] st = Some st"
| "handlerNext k E (fileUri # rest) st =
     (if map_of (fileWatchHandlers st) fileUri = None then handlerNext k E rest st
      else case watchedFileRound k E fileUri st of
             None \<Rightarrow> None
           | Some (True, st') \<Rightarrow> Some st'
           | Some (False, st') \<Rightarrow> handlerNext k E rest st')"

definition handlerRun :: "nat \<Rightarrow> env \<Rightarrow> run \<Rightarrow> project \<Rightarrow> project option" where
  "handlerRun k E r st =
     (case r of
        (None, rest) \<Rightarrow> Some st
      | (Some fileUri, rest) \<Rightarrow>
          (case watchedFileRound k E fileUri st of
             None \<Rightarrow> None
           | Some (True, st') \<Rightarrow> Some st'
           | Some (False, st') \<Rightarrow> handlerNext k E rest st'))"

fun runAll :: "nat \<Rightarrow> env \<Rightarrow> run list \<Rightarrow> project \<Rightarrow> project option" where
  "runAll k E [] st = Some st"
| "runAll k E (r # rs) st =
     (case handlerRun k E r st of None \<Rightarrow> None | Some st' \<Rightarrow> runAll k E rs st')"

subsection \<open>\<open>emit\<close> and \<open>_checkHierarchy\<close>\<close>

text \<open>
  \<open>emit\<close> calls the listeners one after the other. An external listener is called with
  the argument and does what it does; if it throws, \<open>emit\<close> ends there. The call of
  \<open>_onWatchedFileChanged\<close> starts a run of the handler, which goes on after the caller
  of \<open>emit\<close> has returned. The result says whether a listener threw, and gives the runs
  that were started.
\<close>

fun emit_calls ::
    "listener list \<Rightarrow> node option \<Rightarrow> run list \<Rightarrow> project \<Rightarrow> bool \<times> run list \<times> project" where
  "emit_calls [] arg runs st = (False, runs, st)"
| "emit_calls (OnWatchedFileChanged # ls) arg runs st =
     emit_calls ls arg (runs @ [start_run st]) st"
| "emit_calls (External n # ls) arg runs st =
     (case performAll (reaction_of_listener st n) (st\<lparr>calls := calls st @ [Notify n arg]\<rparr>) of
        (True, st') \<Rightarrow> (True, runs, st')
      | (False, st') \<Rightarrow> emit_calls ls arg runs st')"

definition emit :: "string \<Rightarrow> node option \<Rightarrow> project \<Rightarrow> bool \<times> run list \<times> project" where
  "emit event arg st = emit_calls (listeners event st) arg [] st"

text \<open>
  The two values handed to \<open>deepEqual\<close> on line 110 are the stored snapshot (\<open>null\<close> or a
  node) and what \<open>this.getFileHierarchy(true)\<close> returned, which is a promise: the call is
  not awaited. \<open>deepEqual\<close> of fast-deep-equal compares nodes field by field and a
  \<open>Date\<close> by \<open>getTime()\<close>, which is equality of the model's nodes; a Promise is an
  object without own enumerable keys, so it equals neither \<open>null\<close> nor a node.
\<close>

datatype hierarchy_value = HNull | HNode node | HPromise

fun deepEqual :: "hierarchy_value \<Rightarrow> hierarchy_value \<Rightarrow> bool" where
  "deepEqual HNull HNull = True"
| "deepEqual (HNode a) (HNode b) = (a = b)"
| "deepEqual HPromise HPromise = True"
| "deepEqual HNull (HNode b) = False"
| "deepEqual HNull HPromise = False"
| "deepEqual (HNode a) HNull = False"
| "deepEqual (HNode a) HPromise = False"
| "deepEqual HPromise HNull = False"
| "deepEqual HPromise (HNode b) = False"

fun hierarchy_value_of :: "node option \<Rightarrow> hierarchy_value" where
  "hierarchy_value_of None = HNull"
| "hierarchy_value_of (Some t) = HNode t"

text \<open>
  \<open>_checkHierarchy\<close>, the callback of the timeout, as one tick. Lines 107 to 114 run at
  once: at that point \<open>this._fileHierarchy\<close> still is the old snapshot, since
  \<open>getFileHierarchy\<close> has stopped at its first \<open>await\<close>, and a listener that throws
  ends the function before line 114. Afterwards the promise of the rebuild settles (a
  rejection is left unhandled and changes nothing) and the runs of the handler that
  \<open>emit\<close> started go to their end, one after the other. The filesystem is taken to be
  the same \<open>E\<close> during the whole tick, and nothing but the tick and the functions it
  notifies runs on the instance until the runs have ended.
\<close>

definition checkHierarchy :: "nat \<Rightarrow> env \<Rightarrow> project \<Rightarrow> project option" where
  "checkHierarchy k E st =
     (let oldHierarchy = hierarchy_value_of (fileHierarchy st);
          newHierarchy = HPromise;
          emitted = (if \<not> deepEqual oldHierarchy newHierarchy
                     then emit ''hierarchychanged'' (fileHierarchy st) st
                     else (False, [], st))
      in case emitted of (threw, runs, st1) \<Rightarrow>
           (let st2 = (if threw then st1
                       else (case setTimeout 5000 st1 of
                               (i, s) \<Rightarrow> s\<lparr>checkHierarchyTimeout := Some i\<rparr>))
            in case getFileHierarchy k E True st of
                 None \<Rightarrow> None
               | Some (Inl e) \<Rightarrow> runAll k E runs st2
               | Some (Inr (t, s)) \<Rightarrow> runAll k E runs (st2\<lparr>fileHierarchy := Some t\<rparr>)))"

text \<open>The runtime fires the pending timeout \<open>i\<close>: it is no longer pending and its callback runs.\<close>

definition timerFires :: "nat \<Rightarrow> env \<Rightarrow> nat \<Rightarrow> project \<Rightarrow> project option" where
  "timerFires k E i st =
     (if i \<in> fst ` set (timers st)
      then checkHierarchy k E (st\<lparr>timers := filter (\<lambda>p. fst p \<noteq> i) (timers st)\<rparr>)
      else None)"

subsection \<open>A concrete project directory\<close>

text \<open>
  The directory \<open>/proj\<close> holds \<open>a.gltf\<close>, \<open>b.txt\<close> and the directory \<open>models\<close>, which
  holds \<open>c.glb\<close> and \<open>notes.md\<close>. The listing gives a \<open>winLastWriteDate\<close> for
  \<open>b.txt\<close> only. \<open>proj_env_removed\<close> is the same directory after \<open>b.txt\<close> was deleted.
\<close>

definition proj_entries :: "string \<Rightarrow> error + entry list" where
  "proj_entries p =
     (if p = ''/proj'' then
        Inr [\<lparr>e_name = ''a.gltf'', e_path = ''/proj/a.gltf'', e_isDir = False,
               winLastWriteDate = None\<rparr>,
             \<lparr>e_name = ''b.txt'', e_path = ''/proj/b.txt'', e_isDir = False,
               winLastWriteDate = Some 20\<rparr>,
             \<lparr>e_name = ''models'', e_path = ''/proj/models'', e_isDir = True,
               winLastWriteDate = None\<rparr>]
      else if p = ''/proj/models'' then
        Inr [\<lparr>e_name = ''c.glb'', e_path = ''/proj/models/c.glb'', e_isDir = False,
               winLastWriteDate = None\<rparr>,
             \<lparr>e_name = ''notes.md'', e_path = ''/proj/models/notes.md'', e_isDir = False,
               winLastWriteDate = None\<rparr>]
      else Inl AccessError)"

definition proj_stat :: "string \<Rightarrow> error + int" where
  "proj_stat p =
     (if p = ''/proj'' then Inr 100
      else if p = ''/proj/a.gltf'' then Inr 10
      else if p = ''/proj/b.txt'' then Inr 20
      else if p = ''/proj/models'' then Inr 30
      else if p = ''/proj/models/c.glb'' then Inr 40
      else if p = ''/proj/models/notes.md'' then Inr 50
      else Inl AccessError)"

definition proj_ext :: "string \<Rightarrow> string option" where
  "proj_ext n =
     (if n = ''a.gltf'' then Some ''gltf''
      else if n = ''b.txt'' then Some ''txt''
      else if n = ''c.glb'' then Some ''glb''
      else if n = ''notes.md'' then Some ''md''
      else None)"

definition proj_env :: env where
  "proj_env =
     \<lparr> stat = proj_stat, getDirectoryEntries = proj_entries, getFileExtension = proj_ext,
       fromFileURI = drop 7, toFileURI = (\<lambda>p. ''file://'' @ p) \<rparr>"

definition proj_env_removed :: env where
  "proj_env_removed =
     proj_env\<lparr> stat := (\<lambda>p. if p = ''/proj/b.txt'' then Inl AccessError else proj_stat p),
               getDirectoryEntries :=
                 (\<lambda>p. if p = ''/proj''
                      then map_sum id (filter (\<lambda>e. e_name e \<noteq> ''b.txt'')) (proj_entries p)
                      else proj_entries p) \<rparr>"

text \<open>\<open>proj_env_touched\<close>: \<open>b.txt\<close> is still missing and \<open>/proj\<close> has a new date.\<close>

definition proj_env_touched :: env where
  "proj_env_touched =
     proj_env_removed\<lparr> stat := (\<lambda>p. if p = ''/proj'' then Inr 101 else stat proj_env_removed p) \<rparr>"

definition proj :: project where
  "proj = Project proj_env ''proj'' ''file:///proj''"

definition proj_tree :: node where
  "proj_tree =
     DirNode ''proj'' ''file:///proj''
       [FileNode ''a.gltf'' (Some ''gltf'') ''file:///proj/a.gltf'' Undefined,
        DirNode ''models'' ''file:///proj/models''
          [FileNode ''c.glb'' (Some ''glb'') ''file:///proj/models/c.glb'' Undefined]
          [FileNode ''c.glb'' (Some ''glb'') ''file:///proj/models/c.glb'' Undefined,
           FileNode ''notes.md'' (Some ''md'') ''file:///proj/models/notes.md'' Undefined]
          Undefined]
       [FileNode ''a.gltf'' (Some ''gltf'') ''file:///proj/a.gltf'' Undefined,
        FileNode ''b.txt'' (Some ''txt'') ''file:///proj/b.txt'' (DateV 20),
        DirNode ''models'' ''file:///proj/models''
          [FileNode ''c.glb'' (Some ''glb'') ''file:///proj/models/c.glb'' Undefined]
          [FileNode ''c.glb'' (Some ''glb'') ''file:///proj/models/c.glb'' Undefined,
           FileNode ''notes.md'' (Some ''md'') ''file:///proj/models/notes.md'' Undefined]
          Undefined]
       (DateV 100)"

subsection \<open>Predicates on trees\<close>

text \<open>Every node of a tree, the tree itself first; the nodes below a directory are its \<open>files\<close>.\<close>

fun all_nodes :: "node \<Rightarrow> node list" where
  "all_nodes (FileNode n x u m) = [FileNode n x u m]"
| "all_nodes (DirNode n u cs fs m) = DirNode n u cs fs m # concat (map all_nodes fs)"

text \<open>In every directory of the tree, \<open>children\<close> is \<open>files\<close> filtered by the test of line 65.\<close>

fun well_formed :: "node \<Rightarrow> bool" where
  "well_formed (FileNode n x u m) = True"
| "well_formed (DirNode n u cs fs m) = (cs = filter expandable fs \<and> list_all well_formed fs)"

subsection \<open>Predicates on calls\<close>

text \<open>The calls among \<open>cs\<close> that were made to file callbacks for the uri \<open>u\<close>.\<close>

fun about :: "string \<Rightarrow> call \<Rightarrow> bool" where
  "about u (Notify n t) = False"
| "about u (FileCallback c s u') = (u' = u)"

definition new_calls :: "project \<Rightarrow> project \<Rightarrow> call list" where
  "new_calls st st' = drop (length (calls st)) (calls st')"

subsection \<open>Instances of the concrete project\<close>

text \<open>
  \<open>proj_built\<close> has built its tree; \<open>proj_listened\<close> has then got an external listener
  of \<open>hierarchychanged\<close>. \<open>proj_w1\<close> is \<open>proj\<close> after \<open>watchFile\<close> of \<open>b.txt\<close> with
  callback 1, \<open>proj_w2\<close> after a second \<open>watchFile\<close> of it with callback 2.
\<close>

definition proj_built :: project where
  "proj_built = proj\<lparr>fileHierarchy := Some proj_tree\<rparr>"

definition proj_listened :: project where
  "proj_listened =
     proj_built\<lparr>checkHierarchyTimeout := Some 0, events := [(''hierarchychanged'', External 7)],
                timers := [(0, 1000)], nextTimer := 1\<rparr>"

definition proj_w1 :: project where
  "proj_w1 =
     proj\<lparr>checkHierarchyTimeout := Some 0, fileWatchHandlerCount := 1,
          fileWatchHandlers := [(''file:///proj/b.txt'', [1])],
          prevWatchedFileModified := [(''file:///proj/b.txt'', 20)],
          events := [(''hierarchychanged'', OnWatchedFileChanged)],
          timers := [(0, 1000)], nextTimer := 1\<rparr>"

definition proj_w2 :: project where
  "proj_w2 =
     proj_w1\<lparr>fileWatchHandlerCount := 2,
             fileWatchHandlers := [(''file:///proj/b.txt'', [1, 2])]\<rparr>"

text \<open>
  \<open>proj_selfremove\<close> is \<open>proj_listened\<close> with a listener that unsubscribes when it is
  notified, \<open>proj_resubscribe\<close> with one that unsubscribes and subscribes again.
\<close>

definition proj_selfremove :: project where
  "proj_selfremove =
     proj_listened\<lparr>listener_does := [(7, [CallRemoveListener ''hierarchychanged'' 7])]\<rparr>"

definition proj_resubscribe :: project where
  "proj_resubscribe =
     proj_listened\<lparr>listener_does :=
       [(7, [CallRemoveListener ''hierarchychanged'' 7, CallAddListener ''hierarchychanged'' 7])]\<rparr>"

text \<open>
  \<open>proj_overlap\<close> is \<open>proj\<close> after two calls of \<open>watchFile\<close> of \<open>b.txt\<close>, with the
  callbacks 1 and 2, of which the second began before the \<open>stat\<close> of the first had
  settled. \<open>proj_closed\<close> is \<open>proj_overlap\<close> after \<open>unwatchFile\<close> of \<open>b.txt\<close> with
  callback 2 and \<open>close\<close>, and \<open>proj_rewatched\<close> is \<open>proj_closed\<close> after \<open>watchFile\<close> of
  \<open>a.gltf\<close> with callback 3.
\<close>

definition proj_overlap :: project where
  "proj_overlap =
     proj_w1\<lparr>fileWatchHandlerCount := 2,
             fileWatchHandlers := [(''file:///proj/b.txt'', [2])]\<rparr>"

definition proj_closed :: project where
  "proj_closed =
     proj_overlap\<lparr>fileWatchHandlerCount := 1, fileWatchHandlers := [], events := [],
                  timers := [], checkHierarchyTimeout := None\<rparr>"

definition proj_rewatched :: project where
  "proj_rewatched =
     proj_closed\<lparr>fileWatchHandlerCount := 2,
                 fileWatchHandlers := [(''file:///proj/a.gltf'', [3])],
                 prevWatchedFileModified :=
                   [(''file:///proj/b.txt'', 20), (''file:///proj/a.gltf'', 10)]\<rparr>"

text \<open>
  \<open>proj_w2_unwatching\<close> is \<open>proj_w2\<close> where callback 1 answers \<open>"removed"\<close> by
  \<open>unwatchFile\<close> of itself.
\<close>

definition proj_w2_unwatching :: project where
  "proj_w2_unwatching =
     proj_w2\<lparr>callback_does :=
       [((1, ''removed'', ''file:///proj/b.txt''),
         [CallUnwatchFile ''file:///proj/b.txt'' 1])]\<rparr>"

section \<open>Properties\<close>

subsection \<open>Tree construction\<close>

lemma childLastModified_eq:
  "childLastModified E e = (case winLastWriteDate e of Some d \<Rightarrow> DateV d | None \<Rightarrow> Undefined)"
  by (cases "winLastWriteDate e")
     (simp_all add: childLastModified_def promise_lastModificationDate_def await_value_def)

lemma well_formed_all_nodes:
  "well_formed t \<Longrightarrow> d \<in> set (all_nodes t) \<Longrightarrow> children d = filter expandable (files d)"
  by (induction t arbitrary: d rule: well_formed.induct) (auto simp: list_all_iff)

text \<open>
  The invariant of the construction, by induction along the mutual recursion: the loop
  appends one node per entry to \<open>files\<close>, in the listing's order, and the expandable ones
  among them to \<open>children\<close>.
\<close>

lemma build_invariant:
  "(buildProjectNode k E filePath name x isDir uri lm = Some (Inr t) \<longrightarrow>
      well_formed t \<and> node_name t = name \<and> isDirectory t = isDir \<and>
      (isDir \<longrightarrow> (\<exists>es. getDirectoryEntries E filePath = Inr es \<and>
                     map node_name (files t) = map e_name es \<and>
                     map isDirectory (files t) = map e_isDir es)))"
  "(buildEntries k E es cs fs = Some (Inr (cs', fs')) \<longrightarrow>
      (\<exists>new. fs' = fs @ new \<and> cs' = cs @ filter expandable new \<and>
             map node_name new = map e_name es \<and> map isDirectory new = map e_isDir es \<and>
             list_all well_formed new))"
proof (induction k E filePath name x isDir uri lm and k E es cs fs
       arbitrary: t and cs' fs' rule: buildProjectNode_buildEntries.induct)
  case (1 E filePath name x isDir uri lm)
  then show ?case by simp
next
  case (2 k E filePath name x isDir uri lm)
  then show ?case
    by (auto split: sum.splits option.splits)
next
  case (3 k E cs fs)
  then show ?case by simp
next
  case (4 k E childEntry rest cs fs)
  show ?case
  proof
    assume a: "buildEntries k E (childEntry # rest) cs fs = Some (Inr (cs', fs'))"
    then obtain childNode where
      b: "buildProjectNode k E (e_path childEntry) (e_name childEntry)
             (getFileExtension E (e_name childEntry)) (e_isDir childEntry)
             (toFileURI E (e_path childEntry)) (childLastModified E childEntry)
           = Some (Inr childNode)"
      and r: "buildEntries k E rest (if expandable childNode then cs @ [childNode] else cs)
            (fs @ [childNode]) = Some (Inr (cs', fs'))"
      by (auto split: option.splits sum.splits)
    from "4.IH"(1) b have c: "well_formed childNode" "node_name childNode = e_name childEntry"
      "isDirectory childNode = e_isDir childEntry" by auto
    from "4.IH"(2)[OF b refl] r obtain new where
      n: "fs' = (fs @ [childNode]) @ new"
         "cs' = (if expandable childNode then cs @ [childNode] else cs) @ filter expandable new"
         "map node_name new = map e_name rest" "map isDirectory new = map e_isDir rest"
         "list_all well_formed new"
      by blast
    show "\<exists>new. fs' = fs @ new \<and> cs' = cs @ filter expandable new \<and>
             map node_name new = map e_name (childEntry # rest) \<and>
             map isDirectory new = map e_isDir (childEntry # rest) \<and>
             list_all well_formed new"
      using c n by (intro exI[of _ "childNode # new"]) auto
  qed
qed

lemma proj_build:
  "buildProjectNode 3 proj_env ''/proj'' ''proj'' None True ''file:///proj'' (DateV 100)
     = Some (Inr proj_tree)"
  by code_simp

text \<open>
  C3. The claim: every child entry's node records as \<open>lastModified\<close> the modification
  timestamp taken from the listing's metadata when the listing provides it, and from a
  \<open>stat\<close> of the entry otherwise. The code at the listing of \<open>/proj\<close>: \<open>a.gltf\<close> comes
  without \<open>winLastWriteDate\<close>, a \<open>stat\<close> of it gives the date 10, and the node built for
  it has \<open>lastModified = undefined\<close>. Only \<open>b.txt\<close>, whose date comes with the listing,
  gets its date.
\<close>

theorem child_lastModified_undefined_without_listing_date:
  "stat proj_env ''/proj/a.gltf'' = Inr 10 \<and>
   childLastModified proj_env
     \<lparr>e_name = ''a.gltf'', e_path = ''/proj/a.gltf'', e_isDir = False,
      winLastWriteDate = None\<rparr> = Undefined \<and>
   map_option (map_sum id (map lastModified \<circ> files))
     (buildProjectNode 3 proj_env ''/proj'' ''proj'' None True ''file:///proj'' (DateV 100))
     = Some (Inr [Undefined, DateV 20, Undefined])"
  by code_simp

text \<open>
  C5. \<open>getFileHierarchy(false)\<close> on an instance that holds a snapshot returns that snapshot
  and leaves the instance as it is; and when a first call \<open>getFileHierarchy(false)\<close> has
  returned a tree, a second call returns the same tree from the cache, without a rebuild:
  it needs no fuel and does not depend on the filesystem.
\<close>

theorem getFileHierarchy_cached:
  "(fileHierarchy st = Some t \<longrightarrow> getFileHierarchy k E False st = Some (Inr (t, st))) \<and>
   (getFileHierarchy k E False st = Some (Inr (t, st')) \<longrightarrow>
      getFileHierarchy k' E' False st' = Some (Inr (t, st')))"
  by (auto simp: getFileHierarchy_def split: if_splits sum.splits option.splits)

theorem getFileHierarchy_cached_witness:
  "getFileHierarchy 3 proj_env False proj
     = Some (Inr (proj_tree, proj\<lparr>fileHierarchy := Some proj_tree\<rparr>)) \<and>
   getFileHierarchy 0 proj_env_removed False (proj\<lparr>fileHierarchy := Some proj_tree\<rparr>)
     = Some (Inr (proj_tree, proj\<lparr>fileHierarchy := Some proj_tree\<rparr>)) \<and>
   fileHierarchy (proj\<lparr>fileHierarchy := Some proj_tree\<rparr>) = Some proj_tree"
proof -
  have h: "getFileHierarchy 3 proj_env False proj
     = Some (Inr (proj_tree, proj\<lparr>fileHierarchy := Some proj_tree\<rparr>))"
    using proj_build
    by (simp add: getFileHierarchy_def proj_def Project_def OS_File_stat_def proj_env_def
          proj_stat_def)
  from getFileHierarchy_cached
         [of "proj\<lparr>fileHierarchy := Some proj_tree\<rparr>" proj_tree 0 proj_env_removed]
       getFileHierarchy_cached
         [of proj proj_tree 3 proj_env "proj\<lparr>fileHierarchy := Some proj_tree\<rparr>"
             0 proj_env_removed] h
  show ?thesis by simp
qed

text \<open>
  C6. In every node of a constructed tree, \<open>children\<close> is a subset of \<open>files\<close> and every
  entry of \<open>children\<close> is a directory or has the extension \<open>gltf\<close> or \<open>glb\<close>; and the
  \<open>files\<close> of a constructed directory node are the nodes of all the entries of its
  listing, in the listing's order, whatever their extension.
\<close>

theorem children_subset_of_files:
  assumes "buildProjectNode k E filePath name x isDir uri lm = Some (Inr t)"
  shows "(\<forall>d \<in> set (all_nodes t).
            set (children d) \<subseteq> set (files d) \<and>
            (\<forall>c \<in> set (children d).
               isDirectory c \<or> ext c = Some ''gltf'' \<or> ext c = Some ''glb'')) \<and>
         (isDir \<longrightarrow> (\<exists>es. getDirectoryEntries E filePath = Inr es \<and>
                        map node_name (files t) = map e_name es \<and>
                        map isDirectory (files t) = map e_isDir es))"
proof -
  from build_invariant(1)[of k E filePath name x isDir uri lm t] assms
  have wf: "well_formed t"
    and ls: "isDir \<longrightarrow> (\<exists>es. getDirectoryEntries E filePath = Inr es \<and>
                        map node_name (files t) = map e_name es \<and>
                        map isDirectory (files t) = map e_isDir es)"
    by blast+
  have "set (children d) \<subseteq> set (files d) \<and>
        (\<forall>c \<in> set (children d). isDirectory c \<or> ext c = Some ''gltf'' \<or> ext c = Some ''glb'')"
    if "d \<in> set (all_nodes t)" for d
    using well_formed_all_nodes[OF wf that] by (auto simp: expandable_def)
  with ls show ?thesis by blast
qed

theorem children_subset_of_files_witness:
  "buildProjectNode 3 proj_env ''/proj'' ''proj'' None True ''file:///proj'' (DateV 100)
     = Some (Inr proj_tree) \<and>
   list_all
     (\<lambda>d. set (children d) \<subseteq> set (files d) \<and>
          list_all (\<lambda>c. isDirectory c \<or> ext c = Some ''gltf'' \<or> ext c = Some ''glb'')
            (children d))
     (all_nodes proj_tree) \<and>
   map node_name (children proj_tree) = [''a.gltf'', ''models''] \<and>
   map node_name (files proj_tree) = [''a.gltf'', ''b.txt'', ''models''] \<and>
   (\<exists>es. getDirectoryEntries proj_env ''/proj'' = Inr es \<and>
         map node_name (files proj_tree) = map e_name es \<and>
         map isDirectory (files proj_tree) = map e_isDir es)"
proof -
  have "map node_name (children proj_tree) = [''a.gltf'', ''models'']"
       "map node_name (files proj_tree) = [''a.gltf'', ''b.txt'', ''models'']"
    by code_simp+
  with children_subset_of_files[OF proj_build] proj_build show ?thesis
    by (simp add: list_all_iff)
qed

subsection \<open>The concrete instances\<close>

lemma proj_getFileHierarchy:
  "getFileHierarchy 3 proj_env False proj = Some (Inr (proj_tree, proj_built))"
  by code_simp

lemma proj_addListener:
  "addListener ''hierarchychanged'' (External 7) proj_built = proj_listened"
  by code_simp

lemma proj_watchFile_1: "watchFile proj_env ''file:///proj/b.txt'' 1 proj = Inr proj_w1"
  by code_simp

lemma proj_watchFile_2: "watchFile proj_env_removed ''file:///proj/b.txt'' 2 proj_w1 = Inr proj_w2"
  by code_simp

subsection \<open>The change detector\<close>

text \<open>
  C1. The claim: on a poll tick the detector rebuilds the tree, compares it with the
  previous snapshot and notifies, with the new snapshot, exactly when the two differ. The
  code at \<open>proj_listened\<close>, whose snapshot is the tree of \<open>/proj\<close> and whose one
  listener is external: when the timeout fires over the unchanged directory, the rebuild
  gives a tree equal to the snapshot, and the listener is notified all the same, since
  line 110 compares the snapshot with the promise of the rebuild. When the timeout fires
  after \<open>b.txt\<close> was deleted, the rebuild gives another tree and the listener is
  notified with the old snapshot, which is what \<open>this._fileHierarchy\<close> holds on
  line 111.
\<close>

theorem checkHierarchy_notifies_without_change:
  "map_option (map_sum id fst) (getFileHierarchy 3 proj_env True proj_listened)
     = Some (Inr proj_tree) \<and>
   fileHierarchy proj_listened = Some proj_tree \<and>
   map_option calls (timerFires 3 proj_env 0 proj_listened)
     = Some [Notify 7 (Some proj_tree)] \<and>
   map_option (map_sum id fst) (getFileHierarchy 3 proj_env_removed True proj_listened)
     \<noteq> Some (Inr proj_tree) \<and>
   map_option calls (timerFires 3 proj_env_removed 0 proj_listened)
     = Some [Notify 7 (Some proj_tree)]"
  by code_simp

text \<open>
  C8. The claim: the timeout is armed exactly when \<open>hierarchychanged\<close> has a listener,
  and subscribing never arms a second one. The code at \<open>proj_selfremove\<close>, whose one
  listener calls \<open>removeListener\<close> of itself when it is notified: the timeout fires,
  \<open>emit\<close> calls the listener, its \<open>removeListener\<close> finds no listener left and clears
  the timeout that has fired already, and line 114 arms a new one: a timeout is pending
  and there is no listener. At \<open>proj_resubscribe\<close>, whose listener calls
  \<open>removeListener\<close> and then \<open>addListener\<close> of itself, the \<open>addListener\<close> arms a
  timeout and line 114 a second one. And the inherited \<open>on\<close> adds a listener on a new
  instance without arming any.
\<close>

theorem tick_rearms_without_subscriber:
  "listeners ''hierarchychanged'' proj_selfremove = [External 7] \<and>
   timers proj_selfremove = [(0, 1000)] \<and>
   map_option calls (timerFires 3 proj_env 0 proj_selfremove)
     = Some [Notify 7 (Some proj_tree)] \<and>
   map_option (listeners ''hierarchychanged'') (timerFires 3 proj_env 0 proj_selfremove)
     = Some [] \<and>
   map_option timers (timerFires 3 proj_env 0 proj_selfremove) = Some [(1, 5000)] \<and>
   map_option (listeners ''hierarchychanged'') (timerFires 3 proj_env 0 proj_resubscribe)
     = Some [External 7] \<and>
   map_option timers (timerFires 3 proj_env 0 proj_resubscribe)
     = Some [(1, 1000), (2, 5000)] \<and>
   listeners ''hierarchychanged'' (perform (CallOn ''hierarchychanged'' 8) proj)
     = [External 8] \<and>
   timers (perform (CallOn ''hierarchychanged'' 8) proj) = []"
  by code_simp

subsection \<open>The file watch registry\<close>

text \<open>
  C7. The claim: the first \<open>watchFile\<close> of a uri stores the file's date, a rejected
  \<open>stat\<close> rejects the call, and the registry's first watch subscribes the registry to
  \<open>hierarchychanged\<close>. The code at \<open>proj\<close>: two calls of \<open>watchFile\<close> of \<open>b.txt\<close>
  begin one after the other, both find no registration and await their \<open>stat\<close>. The
  rest of the first registers callback 1 and counts 1; the rest of the second sets the
  entry anew, with callback 2 alone, and counts 2. \<open>unwatchFile\<close> of callback 2 empties
  the registry and leaves the count at 1, and \<open>close\<close> unsubscribes. The next
  \<open>watchFile\<close>, of \<open>a.gltf\<close>, is the only watch of the registry; it reads the count 1
  on line 128 and does not subscribe: no listener, no timeout.
\<close>

theorem overlapping_watchFile_loses_subscription:
  "watchFile_begin ''file:///proj/b.txt'' 1 proj = AwaitsStat \<and>
   watchFile_begin ''file:///proj/b.txt'' 2 proj = AwaitsStat \<and>
   watchFile_resume proj_env ''file:///proj/b.txt'' 1 proj = Inr proj_w1 \<and>
   watchFile_resume proj_env ''file:///proj/b.txt'' 2 proj_w1 = Inr proj_overlap \<and>
   fileWatchHandlers proj_overlap = [(''file:///proj/b.txt'', [2])] \<and>
   fileWatchHandlerCount proj_overlap = 2 \<and>
   close (unwatchFile ''file:///proj/b.txt'' 2 proj_overlap) = proj_closed \<and>
   fileWatchHandlers proj_closed = [] \<and>
   fileWatchHandlerCount proj_closed = 1 \<and>
   watchFile proj_env ''file:///proj/a.gltf'' 3 proj_closed = Inr proj_rewatched \<and>
   fileWatchHandlers proj_rewatched = [(''file:///proj/a.gltf'', [3])] \<and>
   listeners ''hierarchychanged'' proj_rewatched = [] \<and>
   timers proj_rewatched = []"
  by code_simp

lemma countWatch_frame:
  "fileWatchHandlers (countWatch st) = fileWatchHandlers st"
  "prevWatchedFileModified (countWatch st) = prevWatchedFileModified st"
  by (simp_all add: countWatch_def addListener_def super_addListener_def setTimeout_def Let_def)

text \<open>
  C10. \<open>watchFile\<close> of a uri that has a registration succeeds whatever the filesystem is
  (the result is the same for any two environments, so no \<open>stat\<close> decides it), appends
  the callback to the uri's callbacks and leaves the stored baselines as they are.
\<close>

theorem watchFile_existing_registration:
  assumes "map_of (fileWatchHandlers st) uri = Some cbs"
  shows "\<exists>st'. watchFile E uri cb st = Inr st' \<and> watchFile E' uri cb st = Inr st' \<and>
              map_of (fileWatchHandlers st') uri = Some (cbs @ [cb]) \<and>
              prevWatchedFileModified st' = prevWatchedFileModified st"
proof -
  define st' where
    "st' = countWatch
             (st\<lparr>fileWatchHandlers := AList.update uri (cbs @ [cb]) (fileWatchHandlers st)\<rparr>)"
  have b: "watchFile_begin uri cb st = Ended st'"
    using assms by (simp add: watchFile_begin_def st'_def)
  then have "watchFile E uri cb st = Inr st'" "watchFile E' uri cb st = Inr st'"
    by (simp_all add: watchFile_def)
  moreover have "map_of (fileWatchHandlers st') uri = Some (cbs @ [cb])"
       "prevWatchedFileModified st' = prevWatchedFileModified st"
    by (simp_all add: st'_def countWatch_frame update_conv')
  ultimately show ?thesis by blast
qed

theorem watchFile_existing_registration_witness:
  "map_of (fileWatchHandlers proj_w1) ''file:///proj/b.txt'' = Some [1] \<and>
   stat proj_env_removed (fromFileURI proj_env_removed ''file:///proj/b.txt'') = Inl AccessError \<and>
   watchFile proj_env_removed ''file:///proj/b.txt'' 2 proj_w1 = Inr proj_w2 \<and>
   watchFile proj_env ''file:///proj/b.txt'' 2 proj_w1 = Inr proj_w2 \<and>
   map_of (fileWatchHandlers proj_w2) ''file:///proj/b.txt'' = Some [1, 2] \<and>
   prevWatchedFileModified proj_w2 = prevWatchedFileModified proj_w1"
proof -
  have h: "map_of (fileWatchHandlers proj_w1) ''file:///proj/b.txt'' = Some [1]"
    and s: "stat proj_env_removed (fromFileURI proj_env_removed ''file:///proj/b.txt'')
              = Inl AccessError"
    by code_simp+
  from watchFile_existing_registration[OF h, of proj_env_removed 2 proj_env]
  obtain st' where w: "watchFile proj_env_removed ''file:///proj/b.txt'' 2 proj_w1 = Inr st'"
    and b: "watchFile proj_env ''file:///proj/b.txt'' 2 proj_w1 = Inr st'"
           "map_of (fileWatchHandlers st') ''file:///proj/b.txt'' = Some ([1] @ [2])"
           "prevWatchedFileModified st' = prevWatchedFileModified proj_w1"
    by blast
  from w have "st' = proj_w2" unfolding proj_watchFile_2 by simp
  with b h s proj_watchFile_2 show ?thesis by simp
qed

text \<open>
  C2. The claim: \<open>unwatchFile(uri, callback)\<close> removes that callback only, and a callback
  that is not registered under the uri removes nothing. The code at \<open>proj_w1\<close>, where
  \<open>b.txt\<close> is watched by callback 1 alone: \<open>unwatchFile\<close> of \<open>b.txt\<close> with callback 2,
  which was never registered, takes the branch of line 137, which does not look at the
  callback; the registration of callback 1 is deleted, the count drops to 0 and the
  registry unsubscribes, which cancels the timeout.
\<close>

theorem unwatchFile_drops_other_callback:
  "watchFile proj_env ''file:///proj/b.txt'' 1 proj = Inr proj_w1 \<and>
   fileWatchHandlers proj_w1 = [(''file:///proj/b.txt'', [1])] \<and>
   unwatchFile ''file:///proj/b.txt'' 2 proj_w1 =
     proj_w1\<lparr>fileWatchHandlers := [], fileWatchHandlerCount := 0, events := [], timers := [],
             checkHierarchyTimeout := None\<rparr>"
  by code_simp

text \<open>
  C4, as claimed: after the file of a uri with two callbacks is deleted, both callbacks get
  \<open>"removed"\<close> once, on the tick that first sees the removal, and not again on later
  ticks. The code at \<open>proj_w2\<close>: the timeout fires after \<open>b.txt\<close> was deleted, and fires
  again after the date of \<open>/proj\<close> changed, so that the second rebuild gives another
  tree than the first; nothing is registered in between. Both callbacks are called with
  \<open>"removed"\<close> on the first tick and again on the second.
\<close>

theorem removed_signal_repeated:
  "map_option (map_sum id fst) (getFileHierarchy 3 proj_env_removed True proj_w2)
     \<noteq> map_option (map_sum id fst) (getFileHierarchy 3 proj_env_touched True proj_w2) \<and>
   map_option calls (timerFires 3 proj_env_removed 0 proj_w2) =
     Some [FileCallback 1 ''removed'' ''file:///proj/b.txt'',
           FileCallback 2 ''removed'' ''file:///proj/b.txt''] \<and>
   map_option calls
     (Option.bind (timerFires 3 proj_env_removed 0 proj_w2) (timerFires 3 proj_env_touched 1)) =
     Some [FileCallback 1 ''removed'' ''file:///proj/b.txt'',
           FileCallback 2 ''removed'' ''file:///proj/b.txt'',
           FileCallback 1 ''removed'' ''file:///proj/b.txt'',
           FileCallback 2 ''removed'' ''file:///proj/b.txt'']"
  by code_simp

text \<open>
  What the callbacks do matters. At \<open>proj_w2_unwatching\<close> callback 1 answers
  \<open>"removed"\<close> by \<open>unwatchFile\<close> of itself: line 144 splices the array that the loop of
  line 172 is reading, the loop ends, and callback 2 is not called on that tick. It is
  called on the next.
\<close>

lemma unwatching_callback_hides_the_next:
  "map_option calls (timerFires 3 proj_env_removed 0 proj_w2_unwatching) =
     Some [FileCallback 1 ''removed'' ''file:///proj/b.txt''] \<and>
   map_option fileWatchHandlers (timerFires 3 proj_env_removed 0 proj_w2_unwatching) =
     Some [(''file:///proj/b.txt'', [2])] \<and>
   map_option calls
     (Option.bind (timerFires 3 proj_env_removed 0 proj_w2_unwatching)
        (timerFires 3 proj_env_touched 1)) =
     Some [FileCallback 1 ''removed'' ''file:///proj/b.txt'',
           FileCallback 2 ''removed'' ''file:///proj/b.txt'']"
  by code_simp

subsection \<open>A tick when no notified function reacts\<close>

lemma live_updates [simp]:
  "live (st\<lparr>calls := c\<rparr>) = live st"
  "live (st\<lparr>prevWatchedFileModified := p\<rparr>) = live st"
  by (auto simp: live_def fun_eq_iff split: option.splits)

lemma reaction_none [simp]:
  "callback_does st = [] \<Longrightarrow> reaction_of_callback st c s u = []"
  "listener_does st = [] \<Longrightarrow> reaction_of_listener st n = []"
  by (simp_all add: reaction_of_callback_def reaction_of_listener_def)

lemma notifyAll_inert:
  assumes "callback_does st = []" and "live st fileUri = cbs" and "length cbs - i < k"
  shows "notifyAll k signal fileUri i st =
           Some (False, st\<lparr>calls := calls st @
                               map (\<lambda>c. FileCallback c signal fileUri) (drop i cbs)\<rparr>)"
  using assms
proof (induction k arbitrary: i st)
  case 0
  then show ?case by simp
next
  case (Suc k)
  show ?case
  proof (cases "i < length cbs")
    case True
    let ?st1 = "st\<lparr>calls := calls st @ [FileCallback (cbs ! i) signal fileUri]\<rparr>"
    from True Suc.prems(3) have f: "length cbs - Suc i < k" by arith
    have c: "callback_does ?st1 = []" "live ?st1 fileUri = cbs"
      using Suc.prems by simp_all
    from Suc.IH[OF c f]
    have "notifyAll k signal fileUri (Suc i) ?st1 =
            Some (False, st\<lparr>calls := calls st @ [FileCallback (cbs ! i) signal fileUri] @
                       map (\<lambda>c. FileCallback c signal fileUri) (drop (Suc i) cbs)\<rparr>)"
      by simp
    moreover have "drop i cbs = cbs ! i # drop (Suc i) cbs"
      using True by (simp add: Cons_nth_drop_Suc)
    ultimately show ?thesis
      using True Suc.prems(1,2) by simp
  next
    case False
    with Suc.prems(2) show ?thesis by simp
  qed
qed

lemma about_map:
  "filter (about u) (map (\<lambda>c. FileCallback c s k) cbs) =
     (if k = u then map (\<lambda>c. FileCallback c s k) cbs else [])"
  by (induction cbs) auto

lemma round_inert:
  assumes "callback_does st = []" and "map_of (fileWatchHandlers st) fileUri = Some cbs"
    and "length cbs < k" and "stat E (fromFileURI E u) = Inl e"
  shows "\<exists>p new. watchedFileRound k E fileUri st =
             Some (False, st\<lparr>prevWatchedFileModified := p, calls := calls st @ new\<rparr>) \<and>
           filter (about u) new =
             (if fileUri = u then map (\<lambda>c. FileCallback c ''removed'' u) cbs else []) \<and>
           map_of p u = map_of (prevWatchedFileModified st) u"
proof -
  from assms(2) have l: "live st fileUri = cbs" by (simp add: live_def)
  from assms(3) have f: "length cbs - 0 < k" by simp
  note n = notifyAll_inert[OF _ _ f]
  show ?thesis
  proof (cases "fileUri = u")
    case True
    with assms(4) have "watchedFileRound k E fileUri st = notifyAll k ''removed'' fileUri 0 st"
      by (simp add: watchedFileRound_def OS_File_stat_def)
    also have "\<dots> = Some (False, st\<lparr>calls := calls st @
                               map (\<lambda>c. FileCallback c ''removed'' fileUri) cbs\<rparr>)"
      using n[OF assms(1) l] by simp
    finally show ?thesis
      using True
      by (intro exI[of _ "prevWatchedFileModified st"]
                exI[of _ "map (\<lambda>c. FileCallback c ''removed'' fileUri) cbs"])
         (simp add: about_map)
  next
    case False
    show ?thesis
    proof (cases "stat E (fromFileURI E fileUri)")
      case (Inl e')
      then have "watchedFileRound k E fileUri st = notifyAll k ''removed'' fileUri 0 st"
        by (simp add: watchedFileRound_def OS_File_stat_def)
      also have "\<dots> = Some (False, st\<lparr>calls := calls st @
                               map (\<lambda>c. FileCallback c ''removed'' fileUri) cbs\<rparr>)"
        using n[OF assms(1) l] by simp
      finally show ?thesis
        using False
        by (intro exI[of _ "prevWatchedFileModified st"]
                  exI[of _ "map (\<lambda>c. FileCallback c ''removed'' fileUri) cbs"])
           (simp add: about_map)
    next
      case (Inr d)
      show ?thesis
      proof (cases "map_of (prevWatchedFileModified st) fileUri")
        case None
        with Inr have "watchedFileRound k E fileUri st = notifyAll k ''removed'' fileUri 0 st"
          by (simp add: watchedFileRound_def OS_File_stat_def)
        also have "\<dots> = Some (False, st\<lparr>calls := calls st @
                               map (\<lambda>c. FileCallback c ''removed'' fileUri) cbs\<rparr>)"
          using n[OF assms(1) l] by simp
        finally show ?thesis
          using False
          by (intro exI[of _ "prevWatchedFileModified st"]
                    exI[of _ "map (\<lambda>c. FileCallback c ''removed'' fileUri) cbs"])
             (simp add: about_map)
      next
        case (Some pd)
        show ?thesis
        proof (cases "d = pd")
          case True
          with Inr Some have "watchedFileRound k E fileUri st = Some (False, st)"
            by (simp add: watchedFileRound_def OS_File_stat_def)
          then show ?thesis
            using False
            by (intro exI[of _ "prevWatchedFileModified st"] exI[of _ "[]"]) simp
        next
          case ne: False
          let ?st1 = "st\<lparr>prevWatchedFileModified :=
                          AList.update fileUri d (prevWatchedFileModified st)\<rparr>"
          have c: "callback_does ?st1 = []" "live ?st1 fileUri = cbs"
            using assms(1) l by simp_all
          from n[OF c, of "''changed''"]
          have "notifyAll k ''changed'' fileUri 0 ?st1 =
                  Some (False, ?st1\<lparr>calls := calls st @
                               map (\<lambda>c. FileCallback c ''changed'' fileUri) cbs\<rparr>)"
            by simp
          with Inr Some ne have "watchedFileRound k E fileUri st =
                  Some (False, st\<lparr>prevWatchedFileModified :=
                          AList.update fileUri d (prevWatchedFileModified st),
                        calls := calls st @
                               map (\<lambda>c. FileCallback c ''changed'' fileUri) cbs\<rparr>)"
            by (simp add: watchedFileRound_def OS_File_stat_def)
          then show ?thesis
            using False
            by (intro exI[of _ "AList.update fileUri d (prevWatchedFileModified st)"]
                  exI[of _ "map (\<lambda>c. FileCallback c ''changed'' fileUri) cbs"])
               (simp add: about_map update_conv')
        qed
      qed
    qed
  qed
qed

lemma next_inert:
  assumes "callback_does st = []"
    and "list_all (\<lambda>kv. length (snd kv) < k) (fileWatchHandlers st)"
    and "stat E (fromFileURI E u) = Inl e"
  shows "\<exists>p new. handlerNext k E keys st =
             Some (st\<lparr>prevWatchedFileModified := p, calls := calls st @ new\<rparr>) \<and>
           filter (about u) new =
             concat (replicate (count_list keys u)
               (case map_of (fileWatchHandlers st) u of
                  None \<Rightarrow> []
                | Some cbs \<Rightarrow> map (\<lambda>c. FileCallback c ''removed'' u) cbs)) \<and>
           map_of p u = map_of (prevWatchedFileModified st) u"
  using assms(1,2)
proof (induction keys arbitrary: st)
  case Nil
  show ?case
    by (intro exI[of _ "prevWatchedFileModified st"] exI[of _ "[]"]) simp
next
  case (Cons key keys)
  show ?case
  proof (cases "map_of (fileWatchHandlers st) key")
    case None
    from Cons.IH[OF Cons.prems] obtain p new where
      1: "handlerNext k E keys st =
             Some (st\<lparr>prevWatchedFileModified := p, calls := calls st @ new\<rparr>)"
         "filter (about u) new =
             concat (replicate (count_list keys u)
               (case map_of (fileWatchHandlers st) u of
                  None \<Rightarrow> []
                | Some cbs \<Rightarrow> map (\<lambda>c. FileCallback c ''removed'' u) cbs))"
         "map_of p u = map_of (prevWatchedFileModified st) u"
      by blast
    show ?thesis
      using None 1 by (intro exI[of _ p] exI[of _ new]) auto
  next
    case (Some cbs)
    then have "(key, cbs) \<in> set (fileWatchHandlers st)" by (rule map_of_SomeD)
    with Cons.prems(2) have f: "length cbs < k" by (auto simp: list_all_iff)
    from round_inert[OF Cons.prems(1) Some f assms(3)] obtain p1 n1 where
      1: "watchedFileRound k E key st =
             Some (False, st\<lparr>prevWatchedFileModified := p1, calls := calls st @ n1\<rparr>)"
         "filter (about u) n1 =
             (if key = u then map (\<lambda>c. FileCallback c ''removed'' u) cbs else [])"
         "map_of p1 u = map_of (prevWatchedFileModified st) u"
      by blast
    let ?st1 = "st\<lparr>prevWatchedFileModified := p1, calls := calls st @ n1\<rparr>"
    have c: "callback_does ?st1 = []"
      "list_all (\<lambda>kv. length (snd kv) < k) (fileWatchHandlers ?st1)"
      using Cons.prems by simp_all
    from Cons.IH[OF c] obtain p2 n2 where
      2: "handlerNext k E keys ?st1 =
             Some (?st1\<lparr>prevWatchedFileModified := p2, calls := calls ?st1 @ n2\<rparr>)"
         "filter (about u) n2 =
             concat (replicate (count_list keys u)
               (case map_of (fileWatchHandlers ?st1) u of
                  None \<Rightarrow> []
                | Some cbs \<Rightarrow> map (\<lambda>c. FileCallback c ''removed'' u) cbs))"
         "map_of p2 u = map_of (prevWatchedFileModified ?st1) u"
      by blast
    show ?thesis
      using Some 1 2
      by (intro exI[of _ p2] exI[of _ "n1 @ n2"]) auto
  qed
qed

lemma handlerRun_start:
  assumes "fileWatchHandlers st = fileWatchHandlers st0"
  shows "handlerRun k E (start_run st0) st = handlerNext k E (map fst (fileWatchHandlers st0)) st"
proof (cases "fileWatchHandlers st0")
  case Nil
  then show ?thesis by (simp add: handlerRun_def start_run_def)
next
  case (Cons kv kvs)
  obtain key cbs where kv: "kv = (key, cbs)" by (cases kv)
  with Cons assms have m: "map_of (fileWatchHandlers st) key = Some cbs" by simp
  from Cons kv have s: "start_run st0 = (Some key, map fst kvs)"
    by (simp add: start_run_def)
  from Cons kv have k: "map fst (fileWatchHandlers st0) = key # map fst kvs" by simp
  show ?thesis unfolding s k by (simp add: handlerRun_def m)
qed

lemma start_run_updates [simp]:
  "start_run (st\<lparr>calls := c\<rparr>) = start_run st"
  by (simp add: start_run_def)

lemma emit_calls_inert:
  assumes "listener_does st = []"
  shows "\<exists>new. emit_calls ls arg runs st =
           (False, runs @ replicate (count_list ls OnWatchedFileChanged) (start_run st),
            st\<lparr>calls := calls st @ new\<rparr>) \<and>
         filter (about u) new = []"
  using assms
proof (induction ls arbitrary: runs st)
  case Nil
  show ?case by (intro exI[of _ "[]"]) simp
next
  case (Cons l ls)
  show ?case
  proof (cases l)
    case OnWatchedFileChanged
    from Cons.IH[OF Cons.prems, of "runs @ [start_run st]"] obtain new where
      "emit_calls ls arg (runs @ [start_run st]) st =
           (False, (runs @ [start_run st]) @
                   replicate (count_list ls OnWatchedFileChanged) (start_run st),
            st\<lparr>calls := calls st @ new\<rparr>)" "filter (about u) new = []"
      by blast
    then show ?thesis
      using OnWatchedFileChanged
      by (intro exI[of _ new]) (simp add: replicate_app_Cons_same)
  next
    case (External n)
    let ?st1 = "st\<lparr>calls := calls st @ [Notify n arg]\<rparr>"
    have c: "listener_does ?st1 = []" using Cons.prems by simp
    from Cons.IH[OF c, of runs] obtain new where
      "emit_calls ls arg runs ?st1 =
           (False, runs @ replicate (count_list ls OnWatchedFileChanged) (start_run ?st1),
            ?st1\<lparr>calls := calls ?st1 @ new\<rparr>)" "filter (about u) new = []"
      by blast
    then show ?thesis
      using External Cons.prems
      by (intro exI[of _ "Notify n arg # new"]) simp
  qed
qed

lemma count_list_distinct: "distinct xs \<Longrightarrow> x \<in> set xs \<Longrightarrow> count_list xs x = 1"
  by (induction xs) auto

lemma getFileHierarchy_forced:
  assumes "p_path st' = p_path st" "p_name st' = p_name st" "p_uri st' = p_uri st"
  shows "(getFileHierarchy k E True st' = None) = (getFileHierarchy k E True st = None)"
    and "getFileHierarchy k E True st' = Some (Inl e) \<Longrightarrow>
           getFileHierarchy k E True st = Some (Inl e)"
  using assms
  by (auto simp: getFileHierarchy_def split: sum.splits option.splits)

lemma runAll_inert:
  assumes "callback_does st = []"
    and "fileWatchHandlers st = fileWatchHandlers st0"
    and "list_all (\<lambda>kv. length (snd kv) < k) (fileWatchHandlers st)"
    and "distinct (map fst (fileWatchHandlers st))"
    and "map_of (fileWatchHandlers st) u = Some cbs"
    and "stat E (fromFileURI E u) = Inl e"
  shows "\<exists>p new. runAll k E [start_run st0] st =
             Some (st\<lparr>prevWatchedFileModified := p, calls := calls st @ new\<rparr>) \<and>
           filter (about u) new = map (\<lambda>c. FileCallback c ''removed'' u) cbs \<and>
           map_of p u = map_of (prevWatchedFileModified st) u"
proof -
  from assms(5) have "u \<in> set (map fst (fileWatchHandlers st))"
    by (metis map_of_eq_None_iff option.distinct(1) set_map)
  from count_list_distinct[OF assms(4) this]
  have c: "count_list (map fst (fileWatchHandlers st0)) u = 1" using assms(2) by simp
  from next_inert[OF assms(1,3,6), of "map fst (fileWatchHandlers st0)"] obtain p new where
    n: "handlerNext k E (map fst (fileWatchHandlers st0)) st =
             Some (st\<lparr>prevWatchedFileModified := p, calls := calls st @ new\<rparr>)"
       "filter (about u) new = map (\<lambda>c. FileCallback c ''removed'' u) cbs"
       "map_of p u = map_of (prevWatchedFileModified st) u"
    unfolding c assms(5) by auto
  have "runAll k E [start_run st0] st =
          Some (st\<lparr>prevWatchedFileModified := p, calls := calls st @ new\<rparr>)"
    by (simp add: handlerRun_start[OF assms(2)] n(1))
  with n(2,3) show ?thesis by blast
qed

text \<open>
  C4, amended. Take a tick that notifies (the test of line 110 succeeds) while the
  handler is subscribed once, no listener and no callback does anything in return, and
  nothing else runs on the instance before the handler has ended; \<open>k\<close> is fuel enough for
  the rebuild and for the callback loops. If the \<open>stat\<close> of a registered uri is rejected,
  the tick ends, keeps the earlier calls, and calls every callback of the uri with
  \<open>"removed"\<close> exactly once, in registration order; the rejection is not passed on. The
  registrations and the uri's baseline are as before, the listeners are the same, and a
  new timeout is pending: all of this holds again at the next tick, which sends the
  signal once more if the file is still missing.
\<close>

theorem removed_on_every_tick:
  assumes inert: "listener_does st = []" "callback_does st = []"
    and once: "count_list (listeners ''hierarchychanged'' st) OnWatchedFileChanged = 1"
    and pending: "i \<in> fst ` set (timers st)"
    and notifies: "\<not> deepEqual (hierarchy_value_of (fileHierarchy st)) HPromise"
    and keys: "distinct (map fst (fileWatchHandlers st))"
    and reg: "map_of (fileWatchHandlers st) u = Some cbs"
    and missing: "stat E (fromFileURI E u) = Inl e"
    and fuel: "getFileHierarchy k E True st \<noteq> None"
              "list_all (\<lambda>kv. length (snd kv) < k) (fileWatchHandlers st)"
  shows "\<exists>st'. timerFires k E i st = Some st' \<and>
           take (length (calls st)) (calls st') = calls st \<and>
           filter (about u) (new_calls st st') = map (\<lambda>c. FileCallback c ''removed'' u) cbs \<and>
           fileWatchHandlers st' = fileWatchHandlers st \<and>
           map_of (prevWatchedFileModified st') u = map_of (prevWatchedFileModified st) u \<and>
           listeners ''hierarchychanged'' st' = listeners ''hierarchychanged'' st \<and>
           listener_does st' = [] \<and> callback_does st' = [] \<and>
           nextTimer st \<in> fst ` set (timers st')"
proof -
  define st0 where "st0 = st\<lparr>timers := filter (\<lambda>p. fst p \<noteq> i) (timers st)\<rparr>"
  have t: "timerFires k E i st = checkHierarchy k E st0"
    using pending by (simp add: timerFires_def st0_def)
  have l: "listeners ''hierarchychanged'' st0 = listeners ''hierarchychanged'' st"
    by (simp add: st0_def listeners_def)
  have "listener_does st0 = []" using inert by (simp add: st0_def)
  from emit_calls_inert[OF this, of "listeners ''hierarchychanged'' st0" "fileHierarchy st0" "[]" u]
  obtain n0 where
    e: "emit ''hierarchychanged'' (fileHierarchy st0) st0 =
          (False, [start_run st0], st0\<lparr>calls := calls st0 @ n0\<rparr>)"
    and a0: "filter (about u) n0 = []"
    unfolding emit_def l once by auto
  define st2 where "st2 =
     st0\<lparr>calls := calls st0 @ n0, timers := timers st0 @ [(nextTimer st0, 5000)],
         nextTimer := Suc (nextTimer st0), checkHierarchyTimeout := Some (nextTimer st0)\<rparr>"
  have d: "\<not> deepEqual (hierarchy_value_of (fileHierarchy st0)) HPromise"
    using notifies by (simp add: st0_def)
  have s2: "(case setTimeout 5000 (st0\<lparr>calls := calls st0 @ n0\<rparr>) of
               (i, s) \<Rightarrow> s\<lparr>checkHierarchyTimeout := Some i\<rparr>) = st2"
    by (simp add: setTimeout_def st2_def)
  have c: "checkHierarchy k E st0 =
     (case getFileHierarchy k E True st0 of
        None \<Rightarrow> None
      | Some (Inl e) \<Rightarrow> runAll k E [start_run st0] st2
      | Some (Inr (t, s)) \<Rightarrow> runAll k E [start_run st0] (st2\<lparr>fileHierarchy := Some t\<rparr>))"
    by (simp add: checkHierarchy_def d e Let_def s2 split: option.splits sum.splits)
  have g: "getFileHierarchy k E True st0 \<noteq> None"
    using fuel(1) getFileHierarchy_forced(1)[of st0 st k E] by (simp add: st0_def)
  have r: "\<exists>p new. runAll k E [start_run st0] (st2\<lparr>fileHierarchy := h\<rparr>) =
             Some (st2\<lparr>fileHierarchy := h, prevWatchedFileModified := p,
                       calls := calls st2 @ new\<rparr>) \<and>
           filter (about u) new = map (\<lambda>c. FileCallback c ''removed'' u) cbs \<and>
           map_of p u = map_of (prevWatchedFileModified st2) u" for h
    using runAll_inert[of "st2\<lparr>fileHierarchy := h\<rparr>" st0 k u cbs E e]
      inert keys reg missing fuel(2)
    by (simp add: st2_def st0_def)
  have "\<exists>h p new. checkHierarchy k E st0 =
             Some (st2\<lparr>fileHierarchy := h, prevWatchedFileModified := p,
                       calls := calls st2 @ new\<rparr>) \<and>
           filter (about u) new = map (\<lambda>c. FileCallback c ''removed'' u) cbs \<and>
           map_of p u = map_of (prevWatchedFileModified st2) u"
  proof (cases "getFileHierarchy k E True st0")
    case None
    with g show ?thesis by simp
  next
    case (Some x)
    show ?thesis
    proof (cases x)
      case (Inl e')
      from r[of "fileHierarchy st2"] obtain p new where
        "runAll k E [start_run st0] st2 =
           Some (st2\<lparr>fileHierarchy := fileHierarchy st2, prevWatchedFileModified := p,
                     calls := calls st2 @ new\<rparr>)"
        "filter (about u) new = map (\<lambda>c. FileCallback c ''removed'' u) cbs"
        "map_of p u = map_of (prevWatchedFileModified st2) u"
        by auto
      with Some Inl show ?thesis
        unfolding c
        by (intro exI[of _ "fileHierarchy st2"] exI[of _ p] exI[of _ new])
           (simp del: runAll.simps)
    next
      case (Inr ts)
      obtain t s where "ts = (t, s)" by (cases ts)
      with r[of "Some t"] Some Inr show ?thesis
        unfolding c by (simp del: runAll.simps) blast
    qed
  qed
  then obtain h p new where
    f: "timerFires k E i st =
             Some (st2\<lparr>fileHierarchy := h, prevWatchedFileModified := p,
                       calls := calls st2 @ new\<rparr>)"
    and a1: "filter (about u) new = map (\<lambda>c. FileCallback c ''removed'' u) cbs"
    and p1: "map_of p u = map_of (prevWatchedFileModified st2) u"
    unfolding t by blast
  show ?thesis
    unfolding f
    using a0 a1 p1 inert
    by (simp add: st2_def st0_def new_calls_def listeners_def)
qed

theorem removed_on_every_tick_witness:
  "listener_does proj_w2 = [] \<and> callback_does proj_w2 = [] \<and>
   count_list (listeners ''hierarchychanged'' proj_w2) OnWatchedFileChanged = 1 \<and>
   0 \<in> fst ` set (timers proj_w2) \<and>
   \<not> deepEqual (hierarchy_value_of (fileHierarchy proj_w2)) HPromise \<and>
   distinct (map fst (fileWatchHandlers proj_w2)) \<and>
   map_of (fileWatchHandlers proj_w2) ''file:///proj/b.txt'' = Some [1, 2] \<and>
   stat proj_env_removed (fromFileURI proj_env_removed ''file:///proj/b.txt'') = Inl AccessError \<and>
   getFileHierarchy 3 proj_env_removed True proj_w2 \<noteq> None \<and>
   list_all (\<lambda>kv. length (snd kv) < 3) (fileWatchHandlers proj_w2) \<and>
   (\<exists>st'. timerFires 3 proj_env_removed 0 proj_w2 = Some st' \<and>
      take (length (calls proj_w2)) (calls st') = calls proj_w2 \<and>
      filter (about ''file:///proj/b.txt'') (new_calls proj_w2 st') =
        [FileCallback 1 ''removed'' ''file:///proj/b.txt'',
         FileCallback 2 ''removed'' ''file:///proj/b.txt''] \<and>
      fileWatchHandlers st' = fileWatchHandlers proj_w2 \<and>
      map_of (prevWatchedFileModified st') ''file:///proj/b.txt'' = Some 20 \<and>
      listeners ''hierarchychanged'' st' = [OnWatchedFileChanged] \<and>
      listener_does st' = [] \<and> callback_does st' = [] \<and>
      1 \<in> fst ` set (timers st'))"
proof -
  have h: "listener_does proj_w2 = []" "callback_does proj_w2 = []"
    "count_list (listeners ''hierarchychanged'' proj_w2) OnWatchedFileChanged = 1"
    "0 \<in> fst ` set (timers proj_w2)"
    "\<not> deepEqual (hierarchy_value_of (fileHierarchy proj_w2)) HPromise"
    "distinct (map fst (fileWatchHandlers proj_w2))"
    "map_of (fileWatchHandlers proj_w2) ''file:///proj/b.txt'' = Some [1, 2]"
    "stat proj_env_removed (fromFileURI proj_env_removed ''file:///proj/b.txt'')
       = Inl AccessError"
    "getFileHierarchy 3 proj_env_removed True proj_w2 \<noteq> None"
    "list_all (\<lambda>kv. length (snd kv) < 3) (fileWatchHandlers proj_w2)"
    by code_simp+
  have v: "map_of (prevWatchedFileModified proj_w2) ''file:///proj/b.txt'' = Some 20"
    "listeners ''hierarchychanged'' proj_w2 = [OnWatchedFileChanged]"
    "nextTimer proj_w2 = 1"
    by code_simp+
  from removed_on_every_tick[OF h] h v show ?thesis by simp
qed

subsection \<open>\<open>close\<close>\<close>

text \<open>
  C9. The claim: \<open>close()\<close> releases all timers and subscriptions. The code at
  \<open>proj_listened\<close>, the instance after \<open>addListener\<close> of an external listener of
  \<open>hierarchychanged\<close>: \<open>close\<close> changes nothing, the listener stays and the timeout
  stays pending.
\<close>

theorem close_keeps_timer:
  "addListener ''hierarchychanged'' (External 7) proj_built = proj_listened \<and>
   close proj_listened = proj_listened \<and>
   timers (close proj_listened) = [(0, 1000)] \<and>
   listeners ''hierarchychanged'' (close proj_listened) = [External 7]"
  by code_simp

end
